theory Spec2Isabelle
  imports Main "HOL-Library.Sublist"
begin

section \<open>Errors\<close>

text \<open>
  Go's \<open>error\<close> interface. The handlers of package \<open>routes\<close> switch on the dynamic type
  of an error: a \<open>*registry.Error\<close> carries the status code of the registry's answer;
  every other error is only a message. The second field of \<open>RegistryError\<close> is the text
  its \<open>Error()\<close> method returns. A nil error is \<open>None\<close> of \<open>error option\<close>.
\<close>

datatype error = RegistryError (StatusCode: int) string | GenericError string

fun error_Error :: "error \<Rightarrow> string" where
  "error_Error (RegistryError c m) = m"
| "error_Error (GenericError m) = m"

text \<open>\<open>fmt.Errorf(msg + "%s", err)\<close>: a new plain error whose text ends in the old one's.\<close>

definition Errorf_s :: "string \<Rightarrow> error \<Rightarrow> error" where
  "Errorf_s msg err = GenericError (msg @ error_Error err)"

section \<open>Package daemon: Run and Shutdown\<close>

type_synonym ident = string
type_synonym bytes = string

text \<open>The two login requests of \<open>apitypes\<close> that \<open>Daemon.Run\<close> builds.\<close>

datatype login_creds = UserLogin string string | MachineLogin ident bytes

text \<open>
  The calls a daemon makes on its collaborators (lockfile, proxy, DB, updates engine, the
  logic engine's session login). The daemon state keeps them in the order they were made.
\<close>

datatype daemon_call =
    LockUnlock | ProxyClose | DbClose | UpdatesStop
  | UpdatesStart | ProxyListen | SessionLogin login_creds

text \<open>
  The collaborators are other packages; what each call returns is a parameter. A login's
  outcome may depend on the calls made before it (a second login meets a populated session).
\<close>

record collaborators =
  lock_Unlock :: "error option"
  proxy_Close :: "error option"
  db_Close :: "error option"
  updates_Stop :: "error option"
  updates_Start :: "error option"
  proxy_Listen :: "error option"
  session_Login :: "login_creds \<Rightarrow> daemon_call list \<Rightarrow> error option"
  identity_DecodeFromString :: "string \<Rightarrow> error + ident"
  base64_NewFromString :: "string \<Rightarrow> error + bytes"

record daemon =
  hasShutdown :: bool
  calls :: "daemon_call list"

definition call :: "daemon_call \<Rightarrow> daemon \<Rightarrow> daemon" where
  "call c d = d\<lparr>calls := calls d @ [c]\<rparr>"

text \<open>\<open>daemon.New\<close> returns a daemon with \<open>hasShutdown: false\<close>; nothing has been called yet.\<close>

definition New :: daemon where
  "New = \<lparr>hasShutdown = False, calls = []\<rparr>"

text \<open>
  \<open>Daemon.Shutdown\<close>: the flag is set before the first step; each step that fails returns
  its wrapped error at once, without running the steps after it.
\<close>

definition Shutdown :: "collaborators \<Rightarrow> daemon \<Rightarrow> error option \<times> daemon" where
  "Shutdown c d =
     (if hasShutdown d then (None, d)
      else
        let d0 = d\<lparr>hasShutdown := True\<rparr>;
            d1 = call LockUnlock d0
        in case lock_Unlock c of
             Some err \<Rightarrow> (Some (Errorf_s ''Could not unlock: '' err), d1)
           | None \<Rightarrow>
               let d2 = call ProxyClose d1
               in case proxy_Close c of
                    Some err \<Rightarrow> (Some (Errorf_s ''Could not stop http proxy: '' err), d2)
                  | None \<Rightarrow>
                      let d3 = call DbClose d2
                      in case db_Close c of
                           Some err \<Rightarrow> (Some (Errorf_s ''Could not close db: '' err), d3)
                         | None \<Rightarrow>
                             let d4 = call UpdatesStop d3
                             in case updates_Stop c of
                                  Some err \<Rightarrow>
                                    (Some (Errorf_s ''Could not stop update checker: '' err), d4)
                                | None \<Rightarrow> (None, d4))"



text \<open>
  \<open>precedes a b xs\<close>: \<open>a\<close> occurs in \<open>xs\<close> and \<open>b\<close> occurs after its first occurrence.
\<close>

fun precedes :: "'a \<Rightarrow> 'a \<Rightarrow> 'a list \<Rightarrow> bool" where
  "precedes a b [] = False"
| "precedes a b (x # xs) = (if x = a then b \<in> set xs else precedes a b xs)"

text \<open>Collaborators none of whose calls fails, for the concrete runs below.\<close>

definition all_ok :: collaborators where
  "all_ok = \<lparr>lock_Unlock = None, proxy_Close = None, db_Close = None, updates_Stop = None,
             updates_Start = None, proxy_Listen = None,
             session_Login = (\<lambda>_ _. None),
             identity_DecodeFromString = Inr, base64_NewFromString = Inr\<rparr>"

text \<open>Collaborators whose DB does not close.\<close>

definition stuck_db :: collaborators where
  "stuck_db = all_ok\<lparr>db_Close := Some (GenericError ''database is locked'')\<rparr>"






section \<open>Package logic: machine tokens\<close>

text \<open>
  The envelopes and bodies that \<open>CreateToken\<close> reads and builds. Their declarations
  (packages \<open>primitive\<close>, \<open>envelope\<close>, \<open>registry\<close>, \<open>crypto\<close>) are not among the sources; the
  records have the fields the source reads and writes, and what the source only passes on
  is a byte string.
\<close>

type_synonym time = nat

datatype sig_alg = EdDSA
datatype token_state = MachineTokenActiveState | MachineTokenDestroyedState
datatype claim_type = SignatureClaimType | RevocationClaimType

record LoginPublicKey =
  lpk_Salt :: bytes
  lpk_Value :: bytes
  lpk_Alg :: sig_alg

record MasterKey =
  mk_Alg :: string
  mk_Value :: bytes

record LoginKeypair =
  kp_Salt :: bytes
  kp_PublicKey :: bytes
  kp_PrivateKey :: bytes

record primitive_Machine =
  Machine_OrgID :: ident
  Machine_Name :: string

record envelope_Machine =
  Machine_ID :: ident
  Machine_Version :: nat
  Machine_Body :: primitive_Machine

record primitive_MachineToken =
  Token_OrgID :: ident
  Token_MachineID :: ident
  Token_PublicKey :: LoginPublicKey
  Token_Master :: MasterKey
  Token_CreatedBy :: ident
  Token_Created :: time
  Token_DestroyedBy :: "ident option"
  Token_Destroyed :: "time option"
  Token_State :: token_state

record envelope_MachineToken =
  MachineToken_ID :: ident
  MachineToken_Version :: nat
  MachineToken_Body :: primitive_MachineToken

record KeyPairs =
  KeyPairs_Signature :: bytes
  KeyPairs_Encryption :: bytes

record envelope_PublicKey =
  PublicKey_ID :: ident
  PublicKey_Body :: bytes

record envelope_PrivateKey =
  PrivateKey_ID :: ident
  PrivateKey_Body :: bytes

text \<open>\<open>primitive.NewClaim(orgID, ownerID, previous, keyID, claimType)\<close>, as the value it builds.\<close>

datatype primitive_Claim = NewClaim ident ident ident ident claim_type

record envelope_Claim =
  Claim_ID :: ident
  Claim_Body :: primitive_Claim
  Claim_Signature :: bytes

record ClaimedKeyPair =
  ckp_PublicKey :: envelope_PublicKey
  ckp_Claims :: "envelope_Claim list"
  ckp_PrivateKey :: envelope_PrivateKey

record MachineTokenCreationSegment =
  seg_Token :: envelope_MachineToken
  seg_Keypairs :: "ClaimedKeyPair list"

text \<open>
  Modelled from the spec: the keyring member record (its declaration is not among the
  sources), with the fields section 3 gives it.
\<close>

record KeyringMember =
  km_OrgID :: ident
  km_KeyringID :: ident
  km_OwnerID :: ident
  km_PublicKeyID :: ident
  km_EncryptingKeyID :: ident
  km_Key :: bytes

text \<open>
  The two uploads of \<open>EncodeToken\<close>: \<open>client.KeyringMember.Post\<close> takes the whole list of
  V1 members, \<open>client.Keyring.Members.Post\<close> one V2 member.
\<close>

datatype post = PostV1Batch "KeyringMember list" | PostV2Member KeyringMember

text \<open>
  What the engine's collaborators answer: the crypto package and engine, the session the
  engine holds and the one \<open>CreateToken\<close> opens for the machine, the clock, the registry
  client. The registry's answer to an upload may depend on the uploads before it.
\<close>

record logic_env =
  crypto_GenerateSalt :: "error + bytes"
  crypto_DeriveLoginKeypair :: "bytes \<Rightarrow> bytes \<Rightarrow> error + LoginKeypair"
  crypto_CreateMasterKeyObject :: "bytes \<Rightarrow> bytes option \<Rightarrow> error + MasterKey"
  engine_session_ID :: ident
  time_Now :: time
  identity_NewMutable :: "primitive_MachineToken \<Rightarrow> error + ident"
  sess_Set :: "envelope_Machine \<Rightarrow> envelope_MachineToken \<Rightarrow> bytes \<Rightarrow> bytes \<Rightarrow> error option"
  sess_AuthID :: "envelope_Machine \<Rightarrow> envelope_MachineToken \<Rightarrow> ident"
  c_GenerateKeyPairs :: "error + KeyPairs"
  packageSigningKeypair ::
    "ident \<Rightarrow> ident \<Rightarrow> KeyPairs \<Rightarrow> error + (envelope_PublicKey \<times> envelope_PrivateKey)"
  packageEncryptionKeypair ::
    "ident \<Rightarrow> ident \<Rightarrow> KeyPairs \<Rightarrow> envelope_PublicKey \<Rightarrow>
       error + (envelope_PublicKey \<times> envelope_PrivateKey)"
  c_SignedClaim :: "primitive_Claim \<Rightarrow> ident \<Rightarrow> bytes \<Rightarrow> error + envelope_Claim"
  createKeyringMemberships ::
    "ident \<Rightarrow> ident \<Rightarrow> error + (KeyringMember list \<times> KeyringMember list)"
  KeyringMember_Post :: "KeyringMember list \<Rightarrow> post list \<Rightarrow> error option"
  Keyring_Members_Post :: "KeyringMember \<Rightarrow> post list \<Rightarrow> error option"

text \<open>\<open>generateKeypairs\<close>: both claims are built with \<open>SignatureClaimType\<close> and signed with
  the signing key.\<close>

definition generateKeypairs ::
  "logic_env \<Rightarrow> ident \<Rightarrow> ident \<Rightarrow> KeyPairs \<Rightarrow> error + ClaimedKeyPair list" where
  "generateKeypairs c orgID authID kp =
     (case packageSigningKeypair c authID orgID kp of
        Inl err \<Rightarrow> Inl err
      | Inr (pubsig, privsig) \<Rightarrow>
          let rawsigClaim = NewClaim orgID authID (PublicKey_ID pubsig) (PublicKey_ID pubsig)
                              SignatureClaimType
          in case c_SignedClaim c rawsigClaim (PublicKey_ID pubsig) (KeyPairs_Signature kp) of
               Inl err \<Rightarrow> Inl err
             | Inr sigclaim \<Rightarrow>
                 (case packageEncryptionKeypair c authID orgID kp pubsig of
                    Inl err \<Rightarrow> Inl err
                  | Inr (pubenc, privenc) \<Rightarrow>
                      let rawencClaim = NewClaim orgID authID (PublicKey_ID pubenc)
                                          (PublicKey_ID pubenc) SignatureClaimType
                      in case c_SignedClaim c rawencClaim (PublicKey_ID pubsig)
                                (KeyPairs_Signature kp) of
                           Inl err \<Rightarrow> Inl err
                         | Inr encclaim \<Rightarrow>
                             Inr [\<lparr>ckp_PublicKey = pubsig, ckp_Claims = [sigclaim],
                                   ckp_PrivateKey = privsig\<rparr>,
                                  \<lparr>ckp_PublicKey = pubenc, ckp_Claims = [encclaim],
                                   ckp_PrivateKey = privenc\<rparr>]))"

text \<open>
  \<open>Machine.CreateToken\<close>. The progress notifications are not part of the result and are
  left out.
\<close>

definition CreateToken ::
  "logic_env \<Rightarrow> envelope_Machine \<Rightarrow> bytes \<Rightarrow> error + MachineTokenCreationSegment" where
  "CreateToken m machine secret =
     (case crypto_GenerateSalt m of
        Inl err \<Rightarrow> Inl err
      | Inr salt \<Rightarrow>
     (case crypto_DeriveLoginKeypair m secret salt of
        Inl err \<Rightarrow> Inl err
      | Inr keypair \<Rightarrow>
     (let orgID = Machine_OrgID (Machine_Body machine)
      in case crypto_CreateMasterKeyObject m secret None of
        Inl err \<Rightarrow> Inl err
      | Inr masterKey \<Rightarrow>
     (let tokenBody =
            \<lparr>Token_OrgID = orgID,
             Token_MachineID = Machine_ID machine,
             Token_PublicKey =
               \<lparr>lpk_Salt = kp_Salt keypair, lpk_Value = kp_PublicKey keypair, lpk_Alg = EdDSA\<rparr>,
             Token_Master = masterKey,
             Token_CreatedBy = engine_session_ID m,
             Token_Created = time_Now m,
             Token_DestroyedBy = None,
             Token_Destroyed = None,
             Token_State = MachineTokenActiveState\<rparr>
      in case identity_NewMutable m tokenBody of
        Inl err \<Rightarrow> Inl err
      | Inr tokenID \<Rightarrow>
     (let token = \<lparr>MachineToken_ID = tokenID, MachineToken_Version = 1,
                   MachineToken_Body = tokenBody\<rparr>
      in case sess_Set m machine token secret ''hello'' of
        Some err \<Rightarrow> Inl err
      | None \<Rightarrow>
     (case c_GenerateKeyPairs m of
        Inl err \<Rightarrow> Inl err
      | Inr kp \<Rightarrow>
     (let authID = sess_AuthID m machine token
      in case generateKeypairs m orgID authID kp of
        Inl err \<Rightarrow> Inl err
      | Inr keypairs \<Rightarrow> Inr \<lparr>seg_Token = token, seg_Keypairs = keypairs\<rparr>)))))))"

text \<open>The loop of \<open>EncodeToken\<close> over the V2 members, after the uploads \<open>posted\<close>.\<close>

fun post_members ::
  "logic_env \<Rightarrow> post list \<Rightarrow> KeyringMember list \<Rightarrow> error option \<times> post list" where
  "post_members m posted [] = (None, posted)"
| "post_members m posted (member # rest) =
     (case Keyring_Members_Post m member posted of
        Some err \<Rightarrow> (Some err, posted @ [PostV2Member member])
      | None \<Rightarrow> post_members m (posted @ [PostV2Member member]) rest)"

text \<open>\<open>Machine.EncodeToken\<close>, returning its error (or nil) and the uploads it made, in order.\<close>

definition EncodeToken :: "logic_env \<Rightarrow> envelope_MachineToken \<Rightarrow> error option \<times> post list" where
  "EncodeToken m token =
     (case createKeyringMemberships m (Token_OrgID (MachineToken_Body token))
             (MachineToken_ID token) of
        Inl err \<Rightarrow> (Some err, [])
      | Inr (v1members, v2members) \<Rightarrow>
          if length v1members \<noteq> 0
          then (case KeyringMember_Post m v1members [] of
                  Some err \<Rightarrow> (Some err, [PostV1Batch v1members])
                | None \<Rightarrow> post_members m [PostV1Batch v1members] v2members)
          else post_members m [] v2members)"

text \<open>
  For the statement of what was uploaded: the registry's answer to one upload after the
  uploads \<open>before\<close>, and whether it accepted each upload of a list in turn.
\<close>

fun post_outcome :: "logic_env \<Rightarrow> post list \<Rightarrow> post \<Rightarrow> error option" where
  "post_outcome m before (PostV1Batch members) = KeyringMember_Post m members before"
| "post_outcome m before (PostV2Member member) = Keyring_Members_Post m member before"

fun all_accepted :: "logic_env \<Rightarrow> post list \<Rightarrow> post list \<Rightarrow> bool" where
  "all_accepted m before [] = True"
| "all_accepted m before (p # ps) =
     (post_outcome m before p = None \<and> all_accepted m (before @ [p]) ps)"

text \<open>The uploads a token's memberships call for: one batch unless it is empty, then each
  V2 member.\<close>

definition expected_posts :: "KeyringMember list \<Rightarrow> KeyringMember list \<Rightarrow> post list" where
  "expected_posts v1members v2members =
     (if v1members = [] then [] else [PostV1Batch v1members]) @ map PostV2Member v2members"

text \<open>A machine, a crypto engine that derives fixed keys, and a registry with two V2
  keyrings that refuses the upload to the second, for the concrete runs.\<close>

definition demo_machine :: envelope_Machine where
  "demo_machine =
     \<lparr>Machine_ID = ''m1'', Machine_Version = 1,
      Machine_Body = \<lparr>Machine_OrgID = ''o1'', Machine_Name = ''workers-abc12''\<rparr>\<rparr>"

definition member_of :: "ident \<Rightarrow> KeyringMember" where
  "member_of k =
     \<lparr>km_OrgID = ''o1'', km_KeyringID = k, km_OwnerID = ''t1'', km_PublicKeyID = ''pk'',
      km_EncryptingKeyID = ''ek'', km_Key = ''sealed''\<rparr>"

definition demo_logic :: logic_env where
  "demo_logic =
     \<lparr>crypto_GenerateSalt = Inr ''salt'',
      crypto_DeriveLoginKeypair =
        (\<lambda>secret salt. Inr \<lparr>kp_Salt = salt, kp_PublicKey = ''pub-'' @ secret,
                            kp_PrivateKey = ''priv-'' @ secret\<rparr>),
      crypto_CreateMasterKeyObject =
        (\<lambda>secret key. Inr \<lparr>mk_Alg = ''triplesec-v3'', mk_Value = ''sealed-'' @ secret\<rparr>),
      engine_session_ID = ''u1'',
      time_Now = 0,
      identity_NewMutable = (\<lambda>body. Inr ''t1''),
      sess_Set = (\<lambda>machine token secret passphrase. None),
      sess_AuthID = (\<lambda>machine token. MachineToken_ID token),
      c_GenerateKeyPairs = Inr \<lparr>KeyPairs_Signature = ''sig'', KeyPairs_Encryption = ''enc''\<rparr>,
      packageSigningKeypair =
        (\<lambda>authID orgID kp. Inr (\<lparr>PublicKey_ID = ''ps'', PublicKey_Body = ''s''\<rparr>,
                                \<lparr>PrivateKey_ID = ''vs'', PrivateKey_Body = ''s''\<rparr>)),
      packageEncryptionKeypair =
        (\<lambda>authID orgID kp pubsig. Inr (\<lparr>PublicKey_ID = ''pe'', PublicKey_Body = ''e''\<rparr>,
                                       \<lparr>PrivateKey_ID = ''ve'', PrivateKey_Body = ''e''\<rparr>)),
      c_SignedClaim =
        (\<lambda>claim keyID key. Inr \<lparr>Claim_ID = ''c'', Claim_Body = claim, Claim_Signature = key\<rparr>),
      createKeyringMemberships =
        (\<lambda>orgID tokenID. Inr ([member_of ''k0''], [member_of ''k1'', member_of ''k2'', member_of ''k3''])),
      KeyringMember_Post = (\<lambda>members before. None),
      Keyring_Members_Post =
        (\<lambda>member before. if km_KeyringID member = ''k2''
                          then Some (RegistryError 409 ''conflict'') else None)\<rparr>"

definition demo_token :: envelope_MachineToken where
  "demo_token =
     \<lparr>MachineToken_ID = ''t1'', MachineToken_Version = 1,
      MachineToken_Body =
        \<lparr>Token_OrgID = ''o1'', Token_MachineID = ''m1'',
         Token_PublicKey = \<lparr>lpk_Salt = ''salt'', lpk_Value = ''pub-s3cret'', lpk_Alg = EdDSA\<rparr>,
         Token_Master = \<lparr>mk_Alg = ''triplesec-v3'', mk_Value = ''sealed-s3cret''\<rparr>,
         Token_CreatedBy = ''u1'', Token_Created = 0, Token_DestroyedBy = None,
         Token_Destroyed = None, Token_State = MachineTokenActiveState\<rparr>\<rparr>"

section \<open>Package cmd: the environment file of a bootstrapped machine\<close>

definition GlobalRoot :: string where
  "GlobalRoot = ''/etc/torus''"

definition EnvironmentFile :: string where
  "EnvironmentFile = ''token.environment''"

text \<open>
  The file system that \<open>writeEnvironmentFile\<close> works on: the directories with their modes,
  the regular files with mode and contents, the paths at which the process is refused
  (no permission to create or to open for writing), the paths whose mode the process may
  not change (a file it can write but does not own), and whether the disk is full (then a
  file can still be created or truncated, but nothing can be written to it). Modes are
  numbers; Go writes them in octal.
\<close>

record filesystem =
  fs_dirs :: "string \<rightharpoonup> nat"
  fs_files :: "string \<rightharpoonup> (nat \<times> string)"
  fs_denied :: "string \<Rightarrow> bool"
  fs_chmod_denied :: "string \<Rightarrow> bool"
  fs_full :: bool

definition mode_0700 :: nat where "mode_0700 = 7 * 64"
definition mode_0600 :: nat where "mode_0600 = 6 * 64"
definition mode_0666 :: nat where "mode_0666 = 6 * 64 + 6 * 8 + 6"

text \<open>\<open>filepath.Dir\<close> and \<open>filepath.Join\<close> on absolute, clean paths.\<close>

definition filepath_Dir :: "string \<Rightarrow> string" where
  "filepath_Dir p =
     (let d = rev (drop 1 (dropWhile (\<lambda>c. c \<noteq> CHR ''/'') (rev p)))
      in if d = [] then ''/'' else d)"

definition filepath_Join :: "string \<Rightarrow> string \<Rightarrow> string" where
  "filepath_Join dir name = dir @ ''/'' @ name"

text \<open>\<open>os.IsNotExist\<close> of the error of \<open>os.Stat\<close>: nothing is at the path.\<close>

definition stat_IsNotExist :: "filesystem \<Rightarrow> string \<Rightarrow> bool" where
  "stat_IsNotExist fs p = (fs_dirs fs p = None \<and> fs_files fs p = None)"

text \<open>\<open>os.Mkdir\<close>: fails when something is at the path, when the parent is not a directory
  or when the process is refused there.\<close>

definition os_Mkdir :: "string \<Rightarrow> nat \<Rightarrow> filesystem \<Rightarrow> error option \<times> filesystem" where
  "os_Mkdir p mode fs =
     (if \<not> stat_IsNotExist fs p then (Some (GenericError ''file exists''), fs)
      else if fs_dirs fs (filepath_Dir p) = None
      then (Some (GenericError ''no such file or directory''), fs)
      else if fs_denied fs p then (Some (GenericError ''permission denied''), fs)
      else (None, fs\<lparr>fs_dirs := (fs_dirs fs)(p \<mapsto> mode)\<rparr>))"

text \<open>\<open>os.Create\<close>: creates the file with mode 0666 (before umask) or truncates the file
  that is there, keeping its mode.\<close>

definition os_Create :: "string \<Rightarrow> filesystem \<Rightarrow> error + filesystem" where
  "os_Create p fs =
     (if fs_dirs fs p \<noteq> None then Inl (GenericError ''is a directory'')
      else if fs_dirs fs (filepath_Dir p) = None
      then Inl (GenericError ''no such file or directory'')
      else if fs_denied fs p then Inl (GenericError ''permission denied'')
      else Inr (fs\<lparr>fs_files := (fs_files fs)
                  (p \<mapsto> (case fs_files fs p of None \<Rightarrow> mode_0666 | Some (mode, old) \<Rightarrow> mode, []))\<rparr>))"

text \<open>\<open>os.Chmod\<close>: fails when the process may not change the mode at the path, or when
  nothing is there.\<close>

definition os_Chmod :: "string \<Rightarrow> nat \<Rightarrow> filesystem \<Rightarrow> error option \<times> filesystem" where
  "os_Chmod p mode fs =
     (if fs_chmod_denied fs p then (Some (GenericError ''operation not permitted''), fs)
      else case fs_files fs p of
        Some (old, content) \<Rightarrow> (None, fs\<lparr>fs_files := (fs_files fs)(p \<mapsto> (mode, content))\<rparr>)
      | None \<Rightarrow>
          (case fs_dirs fs p of
             Some old \<Rightarrow> (None, fs\<lparr>fs_dirs := (fs_dirs fs)(p \<mapsto> mode)\<rparr>)
           | None \<Rightarrow> (Some (GenericError ''no such file or directory''), fs)))"

text \<open>The flush of a \<open>bufio.Writer\<close> on the open file: the buffered text goes to the end of
  the file, or the write fails on a full disk and the file is as it was.\<close>

definition bufio_Flush :: "string \<Rightarrow> string \<Rightarrow> filesystem \<Rightarrow> error option \<times> filesystem" where
  "bufio_Flush p buffered fs =
     (if fs_full fs then (Some (GenericError ''no space left on device''), fs)
      else case fs_files fs p of
        Some (mode, content) \<Rightarrow>
          (None, fs\<lparr>fs_files := (fs_files fs)(p \<mapsto> (mode, content @ buffered))\<rparr>)
      | None \<Rightarrow> (Some (GenericError ''bad file descriptor''), fs))"

definition newline :: string where
  "newline = [CHR 0x0A]"

text \<open>
  \<open>writeEnvironmentFile\<close>. \<open>ID_String\<close> and \<open>Value_String\<close> are the \<open>String()\<close> methods of
  \<open>identity.ID\<close> and \<open>base64.Value\<close> that \<open>%s\<close> prints. The source discards the results of
  \<open>Mkdir\<close>, \<open>Chmod\<close>, \<open>WriteString\<close> and \<open>Flush\<close> (here \<open>snd\<close> drops them); only a
  failed \<open>Create\<close> is returned.
\<close>

definition writeEnvironmentFile ::
  "(ident \<Rightarrow> string) \<Rightarrow> (bytes \<Rightarrow> string) \<Rightarrow> ident \<Rightarrow> bytes \<Rightarrow> filesystem \<Rightarrow>
     error option \<times> filesystem" where
  "writeEnvironmentFile ID_String Value_String token secret fs =
     (let fs1 = (if stat_IsNotExist fs GlobalRoot then snd (os_Mkdir GlobalRoot mode_0700 fs)
                 else fs);
          envPath = filepath_Join GlobalRoot EnvironmentFile
      in case os_Create envPath fs1 of
           Inl err \<Rightarrow> (Some err, fs1)
         | Inr fs2 \<Rightarrow>
             let fs3 = snd (os_Chmod envPath mode_0600 fs2);
                 w0 = [];
                 w1 = w0 @ (''TORUS_TOKEN_ID='' @ ID_String token @ newline);
                 w2 = w1 @ (''TORUS_TOKEN_SECRET='' @ Value_String secret @ newline);
                 fs4 = snd (bufio_Flush envPath w2 fs3)
             in (None, fs4))"

text \<open>What \<open>bootstrap.Do\<close> answers: the id and the secret of the machine's token.\<close>

record bootstrap_Response =
  boot_Token :: ident
  boot_Secret :: bytes

text \<open>
  \<open>bootstrapCmd\<close>, with the answer of \<open>bootstrap.Do\<close> to the command's flags as a
  parameter; it returns the error (or nil), the file system and the lines printed.
\<close>

definition bootstrapCmd ::
  "(ident \<Rightarrow> string) \<Rightarrow> (bytes \<Rightarrow> string) \<Rightarrow> error + bootstrap_Response \<Rightarrow> filesystem \<Rightarrow>
     error option \<times> filesystem \<times> string list" where
  "bootstrapCmd ID_String Value_String bootstrap_Do fs =
     (case bootstrap_Do of
        Inl err \<Rightarrow> (Some (Errorf_s ''bootstrap provision failed: '' err), fs, [])
      | Inr resp \<Rightarrow>
          let envFile = filepath_Join GlobalRoot EnvironmentFile;
              (err, fs') = writeEnvironmentFile ID_String Value_String
                             (boot_Token resp) (boot_Secret resp) fs
          in case err of
               Some e \<Rightarrow>
                 (Some (Errorf_s (''failed to write environment file['' @ envFile @ '']: '') e),
                  fs', [])
             | None \<Rightarrow>
                 (None, fs',
                  [''Machine bootstrapped. Environment configuration saved in '' @ envFile]))"

text \<open>
  For the concrete runs: a machine whose \<open>/etc\<close> exists and whose \<open>/etc/torus\<close> does not;
  the same machine with a full disk; and a machine on which the environment file is
  already there, writable by everyone (mode 0666) and owned by another user, so that the
  process may write it but not change its mode.
\<close>

definition bare_etc :: filesystem where
  "bare_etc =
     \<lparr>fs_dirs = [''/'' \<mapsto> 493, ''/etc'' \<mapsto> 493], fs_files = Map.empty,
      fs_denied = (\<lambda>p. False), fs_chmod_denied = (\<lambda>p. False), fs_full = False\<rparr>"

definition full_disk :: filesystem where
  "full_disk = bare_etc\<lparr>fs_full := True\<rparr>"

definition foreign_file :: filesystem where
  "foreign_file =
     \<lparr>fs_dirs = [''/'' \<mapsto> 493, ''/etc'' \<mapsto> 493, ''/etc/torus'' \<mapsto> 511],
      fs_files = [''/etc/torus/token.environment'' \<mapsto> (mode_0666, ''OLD=1'')],
      fs_denied = (\<lambda>p. False),
      fs_chmod_denied = (\<lambda>p. p = ''/etc/torus/token.environment''),
      fs_full = False\<rparr>"

definition demo_response :: bootstrap_Response where
  "demo_response = \<lparr>boot_Token = ''tid'', boot_Secret = ''c2Vj''\<rparr>"

section \<open>Package routes: login and logout\<close>

text \<open>The decoded body of a login request.\<close>

record login =
  Email :: string
  Passphrase :: string

text \<open>The user envelope that \<open>Users.GetSelf\<close> returns; the handler reads its \<open>ID\<close>.\<close>

record user_self =
  self_ID :: ident
  self_Body :: string

text \<open>
  Modelled from the spec: the session store (package \<open>session\<close> is not among the sources).
  A session holds the identity, the passphrase and the auth token; it is created empty,
  \<open>Set\<close> populates it and fails on a populated session, \<open>Logout\<close> zeroes every field
  and returns it to empty. An empty Go string is an unset field, as \<open>logoutRoute\<close>'s
  test of \<open>Token()\<close> has it.
\<close>

record session =
  sess_ID :: "ident option"
  sess_Passphrase :: string
  sess_Token :: string

definition empty_session :: session where
  "empty_session = \<lparr>sess_ID = None, sess_Passphrase = [], sess_Token = []\<rparr>"

definition session_Set :: "ident \<Rightarrow> string \<Rightarrow> string \<Rightarrow> session \<Rightarrow> error option \<times> session" where
  "session_Set uid passphrase token s =
     (if s = empty_session
      then (None, \<lparr>sess_ID = Some uid, sess_Passphrase = passphrase, sess_Token = token\<rparr>)
      else (Some (GenericError ''already authenticated''), s))"

definition session_Logout :: "session \<Rightarrow> session" where
  "session_Logout s = empty_session"

definition session_Token :: "session \<Rightarrow> string" where
  "session_Token s = sess_Token s"

definition session_HasToken :: "session \<Rightarrow> bool" where
  "session_HasToken s = (sess_Token s \<noteq> [])"

definition session_HasPassphrase :: "session \<Rightarrow> bool" where
  "session_HasPassphrase s = (sess_Passphrase s \<noteq> [])"

text \<open>
  The calls a handler makes on the registry client, the crypto package, the DB and the
  session, in the order it makes them.
\<close>

datatype route_call =
    TokensPostLogin string
  | DeriveLoginHMAC string bytes string
  | TokensPostAuth string bytes
  | UsersGetSelf string
  | DbSet user_self
  | SessionSet ident string string
  | TokensDelete string
  | SessionLogout

text \<open>
  What the handler shares with the daemon: the session, the local DB and the log of
  calls.
\<close>

record world =
  session :: session
  db :: "ident \<rightharpoonup> user_self"
  trace :: "route_call list"

definition logged :: "route_call \<Rightarrow> world \<Rightarrow> world" where
  "logged c w = w\<lparr>trace := trace w @ [c]\<rparr>"

text \<open>
  Modelled from the spec: \<open>db.Set\<close> (package \<open>db\<close> is not among the sources). The local DB
  is a key-value store of cached envelopes; \<open>Set\<close> stores the envelope under its id.
\<close>

definition db_Set :: "user_self \<Rightarrow> world \<Rightarrow> world" where
  "db_Set self w = (logged (DbSet self) w)\<lparr>db := (db w)(self_ID self \<mapsto> self)\<rparr>"

text \<open>\<open>s.Set(...)\<close> and \<open>s.Logout()\<close> on the shared session; the handler discards what
  \<open>Set\<close> returns.\<close>

definition s_Set :: "ident \<Rightarrow> string \<Rightarrow> string \<Rightarrow> world \<Rightarrow> world" where
  "s_Set uid passphrase token w =
     (logged (SessionSet uid passphrase token) w)
       \<lparr>session := snd (session_Set uid passphrase token (session w))\<rparr>"

definition s_Logout :: "world \<Rightarrow> world" where
  "s_Logout w = (logged SessionLogout w)\<lparr>session := session_Logout (session w)\<rparr>"

text \<open>
  What the handler's collaborators answer: the JSON decoder on the request body, the
  registry client and \<open>crypto.DeriveLoginHMAC\<close>.
\<close>

record route_env =
  json_Decode :: "string \<Rightarrow> error + login"
  Tokens_PostLogin :: "string \<Rightarrow> error + (bytes \<times> string)"
  crypto_DeriveLoginHMAC :: "string \<Rightarrow> bytes \<Rightarrow> string \<Rightarrow> error + bytes"
  Tokens_PostAuth :: "string \<Rightarrow> bytes \<Rightarrow> error + string"
  Users_GetSelf :: "string \<Rightarrow> error + user_self"
  Tokens_Delete :: "string \<Rightarrow> error option"

datatype error_type = badRequestError | unauthorizedError

text \<open>
  What a handler writes: a bare status (\<open>w.WriteHeader\<close>), a status with an encoded
  \<open>errorMsg\<close>, the answer of \<open>encodeResponseErr\<close> for an error, or nothing at all (then
  net/http answers for it).
\<close>

datatype response =
    WriteHeader nat
  | WriteHeaderMsg nat error_type string
  | EncodeResponseErr error
  | NoWrite

definition StatusBadRequest :: nat where "StatusBadRequest = 400"
definition StatusNoContent :: nat where "StatusNoContent = 204"
definition StatusNotFound :: nat where "StatusNotFound = 404"

definition loginRoute :: "route_env \<Rightarrow> string \<Rightarrow> world \<Rightarrow> response \<times> world" where
  "loginRoute client body w =
     (case json_Decode client body of
        Inl err \<Rightarrow> (EncodeResponseErr err, w)
      | Inr creds \<Rightarrow>
          if Email creds = [] \<or> Passphrase creds = []
          then (WriteHeaderMsg StatusBadRequest badRequestError ''email and passphrase required'', w)
          else
            let w1 = logged (TokensPostLogin (Email creds)) w
            in case Tokens_PostLogin client (Email creds) of
                 Inl err \<Rightarrow> (EncodeResponseErr err, w1)
               | Inr (salt, loginToken) \<Rightarrow>
                   let w2 = logged (DeriveLoginHMAC (Passphrase creds) salt loginToken) w1
                   in case crypto_DeriveLoginHMAC client (Passphrase creds) salt loginToken of
                        Inl err \<Rightarrow> (EncodeResponseErr err, w2)
                      | Inr hmac \<Rightarrow>
                          let w3 = logged (TokensPostAuth loginToken hmac) w2
                          in case Tokens_PostAuth client loginToken hmac of
                               Inl err \<Rightarrow> (EncodeResponseErr err, w3)
                             | Inr authToken \<Rightarrow>
                                 let w4 = logged (UsersGetSelf authToken) w3
                                 in case Users_GetSelf client authToken of
                                      Inl err \<Rightarrow> (EncodeResponseErr err, w4)
                                    | Inr self \<Rightarrow>
                                        let w5 = db_Set self w4;
                                            w6 = s_Set (self_ID self) (Passphrase creds) authToken w5
                                        in (WriteHeader StatusNoContent, w6))"

text \<open>
  \<open>logoutRoute\<close>. The type switch has a \<open>*registry.Error\<close> case whose inner switch has no
  branch for a status code under 400: there the handler writes nothing.
\<close>

definition logoutRoute :: "route_env \<Rightarrow> world \<Rightarrow> response \<times> world" where
  "logoutRoute client w =
     (let tok = session_Token (session w)
      in if tok = [] then (WriteHeader StatusNotFound, w)
         else
           let w1 = logged (TokensDelete tok) w
           in case Tokens_Delete client tok of
                Some (RegistryError code msg) \<Rightarrow>
                  if code \<ge> 500 then (EncodeResponseErr (RegistryError code msg), w1)
                  else if code \<ge> 400 then (WriteHeader StatusNoContent, s_Logout w1)
                  else (NoWrite, w1)
              | None \<Rightarrow> (WriteHeader StatusNoContent, s_Logout w1)
              | Some (GenericError msg) \<Rightarrow> (EncodeResponseErr (GenericError msg), w1))"

text \<open>\<open>sessionRoute\<close>: 404 unless the session has both a token and a passphrase.\<close>

datatype session_status = SessionStatus bool bool

definition sessionRoute :: "world \<Rightarrow> (response + session_status)" where
  "sessionRoute w =
     (if \<not> (session_HasToken (session w) \<and> session_HasPassphrase (session w))
      then Inl (WriteHeaderMsg StatusNotFound unauthorizedError ''Not logged in'')
      else Inr (SessionStatus (session_HasToken (session w)) (session_HasPassphrase (session w))))"

text \<open>A registry that accepts the login of \<open>a@b\<close> with passphrase \<open>p\<close>, for the concrete runs.\<close>

definition demo_env :: route_env where
  "demo_env =
     \<lparr>json_Decode = (\<lambda>b. if b = ''ok'' then Inr \<lparr>Email = ''a@b'', Passphrase = ''p''\<rparr>
                           else Inl (GenericError ''unexpected end of JSON input'')),
      Tokens_PostLogin = (\<lambda>e. Inr (''salt'', ''lt'')),
      crypto_DeriveLoginHMAC = (\<lambda>p s t. Inr ''mac''),
      Tokens_PostAuth = (\<lambda>t h. Inr ''auth''),
      Users_GetSelf = (\<lambda>t. Inr \<lparr>self_ID = ''u1'', self_Body = ''me''\<rparr>),
      Tokens_Delete = (\<lambda>t. None)\<rparr>"

definition fresh_world :: world where
  "fresh_world = \<lparr>session = empty_session, db = Map.empty, trace = []\<rparr>"

text \<open>
  The same registry refusing the HMAC; one whose \<open>tokens.delete\<close> answers as given; and the
  world after the login of \<open>a@b\<close>.
\<close>

definition wrong_hmac_env :: route_env where
  "wrong_hmac_env =
     demo_env\<lparr>Tokens_PostAuth := (\<lambda>t h. Inl (RegistryError 401 ''invalid login''))\<rparr>"

definition delete_answers :: "error option \<Rightarrow> route_env" where
  "delete_answers r = demo_env\<lparr>Tokens_Delete := (\<lambda>t. r)\<rparr>"

definition logged_in :: world where
  "logged_in =
     \<lparr>session = \<lparr>sess_ID = Some ''u1'', sess_Passphrase = ''p'', sess_Token = ''auth''\<rparr>,
      db = Map.empty, trace = []\<rparr>"

section \<open>Package api: the credentials client\<close>

text \<open>
  \<open>url.Values\<close>: each key has the list of its values. \<open>Set\<close> replaces the list, \<open>Add\<close>
  appends to it.
\<close>

type_synonym url_Values = "string \<rightharpoonup> string list"

definition values_Set :: "url_Values \<Rightarrow> string \<Rightarrow> string \<Rightarrow> url_Values" where
  "values_Set v k x = v(k \<mapsto> [x])"

definition values_Add :: "url_Values \<Rightarrow> string \<Rightarrow> string \<Rightarrow> url_Values" where
  "values_Add v k x = v(k \<mapsto> (case v k of None \<Rightarrow> [] | Some xs \<Rightarrow> xs) @ [x])"

text \<open>
  Modelled from the spec: the credential bodies of package \<open>apitypes\<close> (not among the sources),
  with the fields of the spec's Credential that matter to reading one: name, path
  expression, keyring and value. The V2 body extends the V1 body with a state.
\<close>

record BaseCredential =
  cred_Name :: string
  cred_PathExp :: string
  cred_KeyringID :: ident
  cred_Value :: bytes

record CredentialV2 = BaseCredential +
  cred_State :: "string option"

datatype Credential = BodyV1 BaseCredential | BodyV2 CredentialV2

record CredentialEnvelope =
  env_ID :: ident
  env_Version :: nat
  env_Body :: Credential

text \<open>
  \<open>apitypes.CredentialResp\<close>: the body is raw JSON (\<open>json.RawMessage\<close>), of a type \<open>'j\<close>
  that the model leaves open.
\<close>

record 'j CredentialResp =
  resp_ID :: ident
  resp_Version :: nat
  resp_Body :: 'j

text \<open>
  What the client's collaborators answer: the round trip to the daemon, \<open>json.Unmarshal\<close>
  into each of the two body types, and \<open>identity.ID.String\<close>.
\<close>

record 'j api_env =
  DaemonRoundTrip :: "string \<Rightarrow> string \<Rightarrow> url_Values \<Rightarrow> error + 'j CredentialResp list"
  json_Unmarshal_BaseCredential :: "'j \<Rightarrow> error + BaseCredential"
  json_Unmarshal_CredentialV2 :: "'j \<Rightarrow> error + CredentialV2"
  team_ID_String :: "ident \<Rightarrow> string"

text \<open>The loop of \<open>createEnvelopesFromResp\<close>, with the \<open>results\<close> appended so far.\<close>

fun envelopes_loop ::
  "'j api_env \<Rightarrow> 'j CredentialResp list \<Rightarrow> CredentialEnvelope list \<Rightarrow>
     error + CredentialEnvelope list" where
  "envelopes_loop c [] results = Inr results"
| "envelopes_loop c (r # rest) results =
     (if resp_Version r = 1
      then (case json_Unmarshal_BaseCredential c (resp_Body r) of
              Inl err \<Rightarrow> Inl err
            | Inr cBodyV1 \<Rightarrow>
                envelopes_loop c rest
                  (results @ [\<lparr>env_ID = resp_ID r, env_Version = resp_Version r,
                                env_Body = BodyV1 cBodyV1\<rparr>]))
      else if resp_Version r = 2
      then (case json_Unmarshal_CredentialV2 c (resp_Body r) of
              Inl err \<Rightarrow> Inl err
            | Inr cBodyV2 \<Rightarrow>
                envelopes_loop c rest
                  (results @ [\<lparr>env_ID = resp_ID r, env_Version = resp_Version r,
                                env_Body = BodyV2 cBodyV2\<rparr>]))
      else Inl (GenericError ''Unknown credential version''))"

definition createEnvelopesFromResp ::
  "'j api_env \<Rightarrow> 'j CredentialResp list \<Rightarrow> error + CredentialEnvelope list" where
  "createEnvelopesFromResp c resp = envelopes_loop c resp []"

definition listWorker :: "'j api_env \<Rightarrow> url_Values \<Rightarrow> error + CredentialEnvelope list" where
  "listWorker c v =
     (case DaemonRoundTrip c ''GET'' ''/credentials'' v of
        Inl err \<Rightarrow> Inl err
      | Inr resp \<Rightarrow> createEnvelopesFromResp c resp)"

text \<open>
  \<open>CredentialsClient.Search\<close>; \<open>teamIDs\<close> is a pointer to a slice, nil is \<open>None\<close>. The lines it
  prints on standard output are left out.
\<close>

definition Search ::
  "'j api_env \<Rightarrow> string \<Rightarrow> ident list option \<Rightarrow> error + CredentialEnvelope list" where
  "Search c pathexp teamIDs =
     (let v0 = Map.empty;
          v1 = values_Set v0 ''pathexp'' pathexp;
          v2 = values_Set v1 ''skip-decryption'' ''true'';
          v3 = (case teamIDs of
                  None \<Rightarrow> v2
                | Some ts \<Rightarrow> fold (\<lambda>t v. values_Add v ''team_id'' (team_ID_String c t)) ts v2)
      in listWorker c v3)"

definition Get :: "'j api_env \<Rightarrow> string \<Rightarrow> error + CredentialEnvelope list" where
  "Get c path = listWorker c (values_Set Map.empty ''path'' path)"

text \<open>
  Modelled from the spec: the daemon's handler of \<open>GET /credentials\<close> (the daemon's routes
  and logic for credentials are not among the sources). Section 4.5.4, get/search: it lists
  the credentials at the path or path expression from the registry, decrypts each with the
  keyring's master encryption key, and returns envelopes with decrypted bodies. The spec
  gives the handler no other behaviour; the query is only what the registry lists by.
\<close>

record 'j credentials_daemon =
  registry_list :: "url_Values \<Rightarrow> CredentialEnvelope list"
  keyring_MEK :: "ident \<Rightarrow> bytes"
  crypto_Unbox :: "bytes \<Rightarrow> bytes \<Rightarrow> error + bytes"
  json_Marshal :: "Credential \<Rightarrow> 'j"

fun decrypt_body :: "'j credentials_daemon \<Rightarrow> Credential \<Rightarrow> error + Credential" where
  "decrypt_body d (BodyV1 b) =
     (case crypto_Unbox d (keyring_MEK d (cred_KeyringID b)) (cred_Value b) of
        Inl err \<Rightarrow> Inl err
      | Inr plain \<Rightarrow> Inr (BodyV1 (b\<lparr>cred_Value := plain\<rparr>)))"
| "decrypt_body d (BodyV2 b) =
     (case crypto_Unbox d (keyring_MEK d (cred_KeyringID b)) (cred_Value b) of
        Inl err \<Rightarrow> Inl err
      | Inr plain \<Rightarrow> Inr (BodyV2 (b\<lparr>cred_Value := plain\<rparr>)))"

fun decrypt_all ::
  "'j credentials_daemon \<Rightarrow> CredentialEnvelope list \<Rightarrow> error + CredentialEnvelope list" where
  "decrypt_all d [] = Inr []"
| "decrypt_all d (e # es) =
     (case decrypt_body d (env_Body e) of
        Inl err \<Rightarrow> Inl err
      | Inr body \<Rightarrow>
          (case decrypt_all d es of
             Inl err \<Rightarrow> Inl err
           | Inr rest \<Rightarrow> Inr (e\<lparr>env_Body := body\<rparr> # rest)))"

definition to_resp :: "'j credentials_daemon \<Rightarrow> CredentialEnvelope \<Rightarrow> 'j CredentialResp" where
  "to_resp d e =
     \<lparr>resp_ID = env_ID e, resp_Version = env_Version e, resp_Body = json_Marshal d (env_Body e)\<rparr>"

definition daemon_credentials ::
  "'j credentials_daemon \<Rightarrow> string \<Rightarrow> string \<Rightarrow> url_Values \<Rightarrow> error + 'j CredentialResp list" where
  "daemon_credentials d method path v =
     (let listed = registry_list d v
      in case decrypt_all d listed of
           Inl err \<Rightarrow> Inl err
         | Inr decrypted \<Rightarrow> Inr (map (to_resp d) decrypted))"

text \<open>An envelope whose version number is that of its body's type.\<close>

definition versioned :: "CredentialEnvelope \<Rightarrow> bool" where
  "versioned e = (case env_Body e of BodyV1 b \<Rightarrow> env_Version e = 1 | BodyV2 b \<Rightarrow> env_Version e = 2)"

text \<open>
  The claim's words: the envelopes \<open>envs\<close> carry the decrypted bodies of the credentials
  \<open>listed\<close>, each obtained by decrypting the credential with its keyring's master
  encryption key.
\<close>

definition carry_decrypted ::
  "'j credentials_daemon \<Rightarrow> CredentialEnvelope list \<Rightarrow> CredentialEnvelope list \<Rightarrow> bool" where
  "carry_decrypted d listed envs =
     list_all2
       (\<lambda>l e. env_ID e = env_ID l \<and> env_Version e = env_Version l \<and>
              decrypt_body d (env_Body l) = Inr (env_Body e))
       listed envs"

text \<open>
  A daemon for the concrete runs: the raw JSON is the body itself, a sealed value is the
  key followed by the plain value, and the registry holds one credential, \<open>DB_URL\<close>, listed
  sealed (\<open>demo_listed\<close>); \<open>demo_plain\<close> is the same credential with its value in the clear.
\<close>

definition demo_listed :: "CredentialEnvelope list" where
  "demo_listed =
     [\<lparr>env_ID = ''c1'', env_Version = 1,
       env_Body = BodyV1 \<lparr>cred_Name = ''DB_URL'', cred_PathExp = ''/o/p/dev/svc'',
                          cred_KeyringID = ''k1'', cred_Value = ''mek1:postgres://x''\<rparr>\<rparr>]"

definition demo_plain :: "CredentialEnvelope list" where
  "demo_plain =
     [\<lparr>env_ID = ''c1'', env_Version = 1,
       env_Body = BodyV1 \<lparr>cred_Name = ''DB_URL'', cred_PathExp = ''/o/p/dev/svc'',
                          cred_KeyringID = ''k1'', cred_Value = ''postgres://x''\<rparr>\<rparr>]"

definition demo_daemon :: "Credential credentials_daemon" where
  "demo_daemon =
     \<lparr>registry_list = (\<lambda>v. demo_listed),
      keyring_MEK = (\<lambda>k. ''mek1:''),
      crypto_Unbox =
        (\<lambda>key sealed. if take (length key) sealed = key then Inr (drop (length key) sealed)
                       else Inl (GenericError ''crypto failure'')),
      json_Marshal = (\<lambda>body. body)\<rparr>"

definition demo_api :: "Credential api_env" where
  "demo_api =
     \<lparr>DaemonRoundTrip = daemon_credentials demo_daemon,
      json_Unmarshal_BaseCredential =
        (\<lambda>raw. case raw of BodyV1 b \<Rightarrow> Inr b | BodyV2 b \<Rightarrow> Inl (GenericError ''json: cannot unmarshal'')),
      json_Unmarshal_CredentialV2 =
        (\<lambda>raw. case raw of BodyV2 b \<Rightarrow> Inr b | BodyV1 b \<Rightarrow> Inl (GenericError ''json: cannot unmarshal'')),
      team_ID_String = (\<lambda>i. i)\<rparr>"

section \<open>Properties of Shutdown\<close>

lemma Shutdown_sets_flag: "hasShutdown (snd (Shutdown c d))"
  by (simp add: Shutdown_def call_def Let_def split: option.splits)

text \<open>
  C10. Shutdown is idempotent: on the daemon that a call to Shutdown leaves behind (whether
  or not that call reported an error), a further Shutdown returns nil and the daemon is
  unchanged, whatever its collaborators would answer by then; in particular no further
  call is made on the lockfile, the proxy, the DB or the updates engine.
\<close>

theorem Shutdown_idempotent:
  "Shutdown c' (snd (Shutdown c d)) = (None, snd (Shutdown c d))"
proof -
  have "hasShutdown (snd (Shutdown c d))" by (rule Shutdown_sets_flag)
  then show ?thesis by (simp add: Shutdown_def)
qed

text \<open>
  C4 (as amended). On every first shutdown the daemon makes its calls in this order:
  release the PID lockfile, close the proxy listener, close the DB, stop the updates
  worker. A step that fails ends the shutdown: Shutdown returns that step's error under
  the step's message, and the later steps are not made. When no step fails all four calls
  are made and Shutdown returns nil. In every case the flag is set and the calls made are
  a non-empty initial part of that sequence.
\<close>

theorem Shutdown_first_order:
  assumes "\<not> hasShutdown d"
  shows "(\<forall>err. lock_Unlock c = Some err \<longrightarrow>
            Shutdown c d =
              (Some (Errorf_s ''Could not unlock: '' err),
               d\<lparr>hasShutdown := True, calls := calls d @ [LockUnlock]\<rparr>)) \<and>
         (\<forall>err. lock_Unlock c = None \<and> proxy_Close c = Some err \<longrightarrow>
            Shutdown c d =
              (Some (Errorf_s ''Could not stop http proxy: '' err),
               d\<lparr>hasShutdown := True, calls := calls d @ [LockUnlock, ProxyClose]\<rparr>)) \<and>
         (\<forall>err. lock_Unlock c = None \<and> proxy_Close c = None \<and> db_Close c = Some err \<longrightarrow>
            Shutdown c d =
              (Some (Errorf_s ''Could not close db: '' err),
               d\<lparr>hasShutdown := True, calls := calls d @ [LockUnlock, ProxyClose, DbClose]\<rparr>)) \<and>
         (\<forall>err. lock_Unlock c = None \<and> proxy_Close c = None \<and> db_Close c = None \<and>
                updates_Stop c = Some err \<longrightarrow>
            Shutdown c d =
              (Some (Errorf_s ''Could not stop update checker: '' err),
               d\<lparr>hasShutdown := True,
                 calls := calls d @ [LockUnlock, ProxyClose, DbClose, UpdatesStop]\<rparr>)) \<and>
         (lock_Unlock c = None \<and> proxy_Close c = None \<and> db_Close c = None \<and>
          updates_Stop c = None \<longrightarrow>
            Shutdown c d =
              (None,
               d\<lparr>hasShutdown := True,
                 calls := calls d @ [LockUnlock, ProxyClose, DbClose, UpdatesStop]\<rparr>)) \<and>
         (\<exists>cs. calls (snd (Shutdown c d)) = calls d @ cs \<and> cs \<noteq> [] \<and>
            prefix cs [LockUnlock, ProxyClose, DbClose, UpdatesStop])"
  using assms
  by (cases "lock_Unlock c"; cases "proxy_Close c"; cases "db_Close c"; cases "updates_Stop c")
     (simp_all add: Shutdown_def call_def)

theorem Shutdown_first_order_witness:
  "\<not> hasShutdown New \<and>
   Shutdown all_ok New =
     (None, \<lparr>hasShutdown = True, calls = [LockUnlock, ProxyClose, DbClose, UpdatesStop]\<rparr>) \<and>
   Shutdown stuck_db New =
     (Some (GenericError ''Could not close db: database is locked''),
      \<lparr>hasShutdown = True, calls = [LockUnlock, ProxyClose, DbClose]\<rparr>)"
proof -
  have fresh: "\<not> hasShutdown New" by (simp add: New_def)
  have ok: "lock_Unlock all_ok = None \<and> proxy_Close all_ok = None \<and> db_Close all_ok = None \<and>
      updates_Stop all_ok = None"
    by (simp add: all_ok_def)
  have stuck: "lock_Unlock stuck_db = None \<and> proxy_Close stuck_db = None \<and>
      db_Close stuck_db = Some (GenericError ''database is locked'')"
    by (simp add: stuck_db_def all_ok_def)
  note a = Shutdown_first_order [OF fresh, of all_ok, THEN conjunct2, THEN conjunct2,
      THEN conjunct2, THEN conjunct2, THEN conjunct1, THEN mp, OF ok]
  note b = Shutdown_first_order [OF fresh, of stuck_db, THEN conjunct2, THEN conjunct2,
      THEN conjunct1, rule_format, OF stuck]
  from fresh a b show ?thesis by (simp add: New_def Errorf_s_def)
qed

text \<open>
  The order the claim C4 states (updates worker first, lockfile last) is not the order of
  the calls: on a fresh daemon whose collaborators all succeed the lockfile is released
  first and the updates worker is stopped last.
\<close>

theorem Shutdown_claimed_order_counterexample:
  "calls (snd (Shutdown all_ok New)) \<noteq> [UpdatesStop, ProxyClose, DbClose, LockUnlock] \<and>
   \<not> precedes UpdatesStop ProxyClose (calls (snd (Shutdown all_ok New))) \<and>
   \<not> precedes DbClose LockUnlock (calls (snd (Shutdown all_ok New)))"
  by (simp add: Shutdown_def all_ok_def New_def call_def)

section \<open>Properties of Run\<close>




section \<open>Properties of the login and logout handlers\<close>

text \<open>
  C1 (as amended). For every login request whose email and passphrase are both non-empty
  and whose steps all succeed, the handler makes exactly these calls, in this order:
  tokens.post_login(email) giving (salt, login_token); the login HMAC from the passphrase,
  the salt and the login token; tokens.post_auth(login_token, hmac) giving auth_token;
  users.get_self with that token; the store of self in the local DB; the population of
  the session with self's id, the passphrase and the auth token. It answers 204 No
  Content. The DB holds self under its id, and a session that was empty is the user
  session of self. The store in the DB comes before the session is populated.
\<close>

theorem loginRoute_success:
  assumes "json_Decode client body = Inr creds"
    and "Email creds \<noteq> []" and "Passphrase creds \<noteq> []"
    and "Tokens_PostLogin client (Email creds) = Inr (salt, loginToken)"
    and "crypto_DeriveLoginHMAC client (Passphrase creds) salt loginToken = Inr hmac"
    and "Tokens_PostAuth client loginToken hmac = Inr authToken"
    and "Users_GetSelf client authToken = Inr self"
  shows "loginRoute client body w =
           (WriteHeader 204,
            w\<lparr>trace := trace w @
                 [TokensPostLogin (Email creds),
                  DeriveLoginHMAC (Passphrase creds) salt loginToken,
                  TokensPostAuth loginToken hmac,
                  UsersGetSelf authToken,
                  DbSet self,
                  SessionSet (self_ID self) (Passphrase creds) authToken],
              db := (db w)(self_ID self \<mapsto> self),
              session := snd (session_Set (self_ID self) (Passphrase creds) authToken (session w))\<rparr>) \<and>
         (session w = empty_session \<longrightarrow>
            session (snd (loginRoute client body w)) =
              \<lparr>sess_ID = Some (self_ID self), sess_Passphrase = Passphrase creds,
                sess_Token = authToken\<rparr>)"
  using assms
  by (simp add: loginRoute_def logged_def db_Set_def s_Set_def StatusNoContent_def session_Set_def)

theorem loginRoute_success_witness:
  "fst (loginRoute demo_env ''ok'' fresh_world) = WriteHeader 204 \<and>
   trace (snd (loginRoute demo_env ''ok'' fresh_world)) =
     [TokensPostLogin ''a@b'', DeriveLoginHMAC ''p'' ''salt'' ''lt'', TokensPostAuth ''lt'' ''mac'',
      UsersGetSelf ''auth'', DbSet \<lparr>self_ID = ''u1'', self_Body = ''me''\<rparr>,
      SessionSet ''u1'' ''p'' ''auth''] \<and>
   session (snd (loginRoute demo_env ''ok'' fresh_world)) =
     \<lparr>sess_ID = Some ''u1'', sess_Passphrase = ''p'', sess_Token = ''auth''\<rparr> \<and>
   sessionRoute (snd (loginRoute demo_env ''ok'' fresh_world)) = Inr (SessionStatus True True)"
proof -
  let ?creds = "\<lparr>Email = ''a@b'', Passphrase = ''p''\<rparr>"
  let ?self = "\<lparr>self_ID = ''u1'', self_Body = ''me''\<rparr>"
  have h: "json_Decode demo_env ''ok'' = Inr ?creds" "Email ?creds \<noteq> []" "Passphrase ?creds \<noteq> []"
    "Tokens_PostLogin demo_env (Email ?creds) = Inr (''salt'', ''lt'')"
    "crypto_DeriveLoginHMAC demo_env (Passphrase ?creds) ''salt'' ''lt'' = Inr ''mac''"
    "Tokens_PostAuth demo_env ''lt'' ''mac'' = Inr ''auth''"
    "Users_GetSelf demo_env ''auth'' = Inr ?self"
    by (simp_all add: demo_env_def)
  have e: "session fresh_world = empty_session" by (simp add: fresh_world_def)
  note inst = loginRoute_success [OF h, of fresh_world]
  from inst have r: "fst (loginRoute demo_env ''ok'' fresh_world) = WriteHeader 204"
    and t: "trace (snd (loginRoute demo_env ''ok'' fresh_world)) =
      [TokensPostLogin ''a@b'', DeriveLoginHMAC ''p'' ''salt'' ''lt'', TokensPostAuth ''lt'' ''mac'',
       UsersGetSelf ''auth'', DbSet ?self, SessionSet ''u1'' ''p'' ''auth'']"
    by (simp_all add: fresh_world_def)
  from conjunct2 [OF inst] e have s: "session (snd (loginRoute demo_env ''ok'' fresh_world)) =
      \<lparr>sess_ID = Some ''u1'', sess_Passphrase = ''p'', sess_Token = ''auth''\<rparr>"
    by simp
  have "sessionRoute (snd (loginRoute demo_env ''ok'' fresh_world)) = Inr (SessionStatus True True)"
    unfolding sessionRoute_def s by (simp add: session_HasToken_def session_HasPassphrase_def)
  with r t s show ?thesis by simp
qed

text \<open>
  The order C1 states has the session populated before self is stored in the DB. In the
  handler's calls for the login of \<open>a@b\<close> the store in the DB comes first.
\<close>

theorem loginRoute_claimed_order_counterexample:
  "\<not> precedes (SessionSet ''u1'' ''p'' ''auth'') (DbSet \<lparr>self_ID = ''u1'', self_Body = ''me''\<rparr>)
       (trace (snd (loginRoute demo_env ''ok'' fresh_world))) \<and>
   precedes (DbSet \<lparr>self_ID = ''u1'', self_Body = ''me''\<rparr>) (SessionSet ''u1'' ''p'' ''auth'')
       (trace (snd (loginRoute demo_env ''ok'' fresh_world)))"
  by (simp add: loginRoute_def demo_env_def fresh_world_def logged_def db_Set_def s_Set_def)

text \<open>
  C2. If a step of the login sequence fails with an error (decoding the request,
  tokens.post_login, the derivation of the HMAC, tokens.post_auth or users.get_self, each
  reached because the steps before it succeeded), the handler answers with that error and
  neither the session nor the DB is touched; a session that was empty is left empty, with
  no identity, no passphrase and no auth token.
\<close>

theorem loginRoute_failure_leaves_session:
  assumes "json_Decode client body = Inl err \<or>
     (\<exists>creds. json_Decode client body = Inr creds \<and> Email creds \<noteq> [] \<and> Passphrase creds \<noteq> [] \<and>
        (Tokens_PostLogin client (Email creds) = Inl err \<or>
         (\<exists>salt loginToken. Tokens_PostLogin client (Email creds) = Inr (salt, loginToken) \<and>
            (crypto_DeriveLoginHMAC client (Passphrase creds) salt loginToken = Inl err \<or>
             (\<exists>hmac. crypto_DeriveLoginHMAC client (Passphrase creds) salt loginToken = Inr hmac \<and>
                (Tokens_PostAuth client loginToken hmac = Inl err \<or>
                 (\<exists>authToken. Tokens_PostAuth client loginToken hmac = Inr authToken \<and>
                    Users_GetSelf client authToken = Inl err)))))))"
  shows "fst (loginRoute client body w) = EncodeResponseErr err \<and>
         session (snd (loginRoute client body w)) = session w \<and>
         db (snd (loginRoute client body w)) = db w \<and>
         (session w = empty_session \<longrightarrow>
            sess_ID (session (snd (loginRoute client body w))) = None \<and>
            sess_Passphrase (session (snd (loginRoute client body w))) = [] \<and>
            sess_Token (session (snd (loginRoute client body w))) = [])"
  using assms
  by (auto simp: loginRoute_def logged_def empty_session_def)

theorem loginRoute_failure_leaves_session_witness:
  "fst (loginRoute wrong_hmac_env ''ok'' fresh_world) =
     EncodeResponseErr (RegistryError 401 ''invalid login'') \<and>
   session (snd (loginRoute wrong_hmac_env ''ok'' fresh_world)) = empty_session \<and>
   sessionRoute (snd (loginRoute wrong_hmac_env ''ok'' fresh_world)) =
     Inl (WriteHeaderMsg 404 unauthorizedError ''Not logged in'')"
proof -
  let ?creds = "\<lparr>Email = ''a@b'', Passphrase = ''p''\<rparr>"
  have "json_Decode wrong_hmac_env ''ok'' = Inr ?creds \<and> Email ?creds \<noteq> [] \<and>
        Passphrase ?creds \<noteq> [] \<and>
        Tokens_PostLogin wrong_hmac_env (Email ?creds) = Inr (''salt'', ''lt'') \<and>
        crypto_DeriveLoginHMAC wrong_hmac_env (Passphrase ?creds) ''salt'' ''lt'' = Inr ''mac'' \<and>
        Tokens_PostAuth wrong_hmac_env ''lt'' ''mac'' = Inl (RegistryError 401 ''invalid login'')"
    by (simp add: wrong_hmac_env_def demo_env_def)
  then have fails: "json_Decode wrong_hmac_env ''ok'' = Inl (RegistryError 401 ''invalid login'') \<or>
     (\<exists>creds. json_Decode wrong_hmac_env ''ok'' = Inr creds \<and> Email creds \<noteq> [] \<and>
        Passphrase creds \<noteq> [] \<and>
        (Tokens_PostLogin wrong_hmac_env (Email creds) = Inl (RegistryError 401 ''invalid login'') \<or>
         (\<exists>salt loginToken. Tokens_PostLogin wrong_hmac_env (Email creds) = Inr (salt, loginToken) \<and>
            (crypto_DeriveLoginHMAC wrong_hmac_env (Passphrase creds) salt loginToken =
               Inl (RegistryError 401 ''invalid login'') \<or>
             (\<exists>hmac. crypto_DeriveLoginHMAC wrong_hmac_env (Passphrase creds) salt loginToken = Inr hmac \<and>
                (Tokens_PostAuth wrong_hmac_env loginToken hmac =
                   Inl (RegistryError 401 ''invalid login'') \<or>
                 (\<exists>authToken. Tokens_PostAuth wrong_hmac_env loginToken hmac = Inr authToken \<and>
                    Users_GetSelf wrong_hmac_env authToken =
                      Inl (RegistryError 401 ''invalid login''))))))))"
    by blast
  note inst = loginRoute_failure_leaves_session [OF fails, of fresh_world]
  from inst have r: "fst (loginRoute wrong_hmac_env ''ok'' fresh_world) =
      EncodeResponseErr (RegistryError 401 ''invalid login'')"
    and s: "session (snd (loginRoute wrong_hmac_env ''ok'' fresh_world)) = empty_session"
    by (simp_all add: fresh_world_def)
  have "sessionRoute (snd (loginRoute wrong_hmac_env ''ok'' fresh_world)) =
      Inl (WriteHeaderMsg 404 unauthorizedError ''Not logged in'')"
    unfolding sessionRoute_def s
    by (simp add: session_HasToken_def session_HasPassphrase_def StatusNotFound_def
          empty_session_def)
  with r s show ?thesis by simp
qed

text \<open>
  C3. For every logout request on a session that holds an auth token: when tokens.delete
  returns a registry error with a status code of 500 or more, the handler answers with
  that error and the session is as it was; when it returns a registry error with a status
  code in [400, 500), or succeeds, the session is cleared and the answer is 204.
\<close>

theorem logoutRoute_by_status:
  assumes "session_Token (session w) \<noteq> []"
  shows "(\<forall>code msg.
            Tokens_Delete client (session_Token (session w)) = Some (RegistryError code msg) \<and>
            code \<ge> 500 \<longrightarrow>
              fst (logoutRoute client w) = EncodeResponseErr (RegistryError code msg) \<and>
              session (snd (logoutRoute client w)) = session w) \<and>
         (\<forall>code msg.
            Tokens_Delete client (session_Token (session w)) = Some (RegistryError code msg) \<and>
            400 \<le> code \<and> code < 500 \<longrightarrow>
              fst (logoutRoute client w) = WriteHeader 204 \<and>
              session (snd (logoutRoute client w)) = empty_session) \<and>
         (Tokens_Delete client (session_Token (session w)) = None \<longrightarrow>
            fst (logoutRoute client w) = WriteHeader 204 \<and>
            session (snd (logoutRoute client w)) = empty_session)"
  using assms
  by (auto simp: logoutRoute_def logged_def s_Logout_def session_Logout_def
        StatusNoContent_def Let_def)

theorem logoutRoute_by_status_witness:
  "fst (logoutRoute (delete_answers (Some (RegistryError 503 ''unavailable''))) logged_in) =
     EncodeResponseErr (RegistryError 503 ''unavailable'') \<and>
   session (snd (logoutRoute (delete_answers (Some (RegistryError 503 ''unavailable''))) logged_in)) =
     session logged_in \<and>
   logoutRoute (delete_answers (Some (RegistryError 404 ''not found''))) logged_in =
     (WriteHeader 204,
      logged_in\<lparr>trace := [TokensDelete ''auth'', SessionLogout], session := empty_session\<rparr>) \<and>
   logoutRoute (delete_answers None) logged_in =
     (WriteHeader 204,
      logged_in\<lparr>trace := [TokensDelete ''auth'', SessionLogout], session := empty_session\<rparr>)"
proof -
  have tok: "session_Token (session logged_in) \<noteq> []"
    by (simp add: logged_in_def session_Token_def)
  have a: "Tokens_Delete (delete_answers r) (session_Token (session logged_in)) = r" for r
    by (simp add: delete_answers_def)
  note inst = logoutRoute_by_status [OF tok]
  have five: "fst (logoutRoute (delete_answers (Some (RegistryError 503 ''unavailable''))) logged_in) =
       EncodeResponseErr (RegistryError 503 ''unavailable'') \<and>
     session (snd (logoutRoute (delete_answers (Some (RegistryError 503 ''unavailable''))) logged_in)) =
       session logged_in"
    using inst [of "delete_answers (Some (RegistryError 503 ''unavailable''))"] a by simp
  have rest: "logoutRoute (delete_answers (Some (RegistryError 404 ''not found''))) logged_in =
       (WriteHeader 204,
        logged_in\<lparr>trace := [TokensDelete ''auth'', SessionLogout], session := empty_session\<rparr>)"
    "logoutRoute (delete_answers None) logged_in =
       (WriteHeader 204,
        logged_in\<lparr>trace := [TokensDelete ''auth'', SessionLogout], session := empty_session\<rparr>)"
    by (simp_all add: logoutRoute_def delete_answers_def logged_in_def session_Token_def
          logged_def s_Logout_def session_Logout_def StatusNoContent_def demo_env_def)
  from five rest show ?thesis by simp
qed

section \<open>Properties of machine token creation\<close>

text \<open>
  C6. For every machine envelope and secret for which CreateToken succeeds, the body of
  the returned token has the machine's ID as MachineID and the machine's org as OrgID,
  carries the login public key derived from the secret and the generated salt (the
  keypair's salt and public value, algorithm EdDSA), carries the master key object that
  CreateMasterKeyObject made under the secret, and is in the active state.
\<close>

theorem CreateToken_body:
  assumes "CreateToken m machine secret = Inr seg"
  shows "Token_MachineID (MachineToken_Body (seg_Token seg)) = Machine_ID machine \<and>
         Token_OrgID (MachineToken_Body (seg_Token seg)) = Machine_OrgID (Machine_Body machine) \<and>
         (\<exists>salt keypair.
            crypto_GenerateSalt m = Inr salt \<and>
            crypto_DeriveLoginKeypair m secret salt = Inr keypair \<and>
            Token_PublicKey (MachineToken_Body (seg_Token seg)) =
              \<lparr>lpk_Salt = kp_Salt keypair, lpk_Value = kp_PublicKey keypair, lpk_Alg = EdDSA\<rparr>) \<and>
         crypto_CreateMasterKeyObject m secret None =
           Inr (Token_Master (MachineToken_Body (seg_Token seg))) \<and>
         Token_State (MachineToken_Body (seg_Token seg)) = MachineTokenActiveState"
  using assms
  by (auto simp: CreateToken_def Let_def split: sum.splits option.splits)

theorem CreateToken_body_witness:
  "\<exists>seg. CreateToken demo_logic demo_machine ''s3cret'' = Inr seg \<and>
      seg_Token seg = demo_token \<and>
      Token_MachineID (MachineToken_Body (seg_Token seg)) = ''m1'' \<and>
      Token_OrgID (MachineToken_Body (seg_Token seg)) = ''o1'' \<and>
      Token_State (MachineToken_Body (seg_Token seg)) = MachineTokenActiveState"
proof -
  have "\<exists>seg. CreateToken demo_logic demo_machine ''s3cret'' = Inr seg \<and>
          seg_Token seg = demo_token"
    by (simp add: CreateToken_def generateKeypairs_def demo_logic_def demo_machine_def
          demo_token_def Let_def)
  then obtain seg where run: "CreateToken demo_logic demo_machine ''s3cret'' = Inr seg"
    and tok: "seg_Token seg = demo_token"
    by blast
  from CreateToken_body [OF run]
  have "Token_MachineID (MachineToken_Body (seg_Token seg)) = Machine_ID demo_machine"
    and "Token_OrgID (MachineToken_Body (seg_Token seg)) = Machine_OrgID (Machine_Body demo_machine)"
    and "Token_State (MachineToken_Body (seg_Token seg)) = MachineTokenActiveState"
    by simp_all
  with run tok show ?thesis by (simp add: demo_machine_def)
qed

section \<open>Properties of the upload of keyring memberships\<close>

lemma post_members_sent:
  "post_members m posted ms = (r, posts) \<Longrightarrow>
     \<exists>sent. posts = posted @ map PostV2Member sent \<and> prefix sent ms \<and>
       (case r of
          None \<Rightarrow> sent = ms \<and> all_accepted m posted (map PostV2Member sent)
        | Some err \<Rightarrow>
            sent \<noteq> [] \<and> all_accepted m posted (map PostV2Member (butlast sent)) \<and>
            Keyring_Members_Post m (last sent) (posted @ map PostV2Member (butlast sent)) =
              Some err)"
proof (induction ms arbitrary: posted)
  case Nil
  then show ?case by auto
next
  case (Cons a ms)
  show ?case
  proof (cases "Keyring_Members_Post m a posted")
    case None
    with Cons.prems have "post_members m (posted @ [PostV2Member a]) ms = (r, posts)" by simp
    from Cons.IH [OF this] obtain sent where
      s: "posts = (posted @ [PostV2Member a]) @ map PostV2Member sent" "prefix sent ms"
      "(case r of
          None \<Rightarrow> sent = ms \<and> all_accepted m (posted @ [PostV2Member a]) (map PostV2Member sent)
        | Some err \<Rightarrow>
            sent \<noteq> [] \<and>
            all_accepted m (posted @ [PostV2Member a]) (map PostV2Member (butlast sent)) \<and>
            Keyring_Members_Post m (last sent)
              ((posted @ [PostV2Member a]) @ map PostV2Member (butlast sent)) = Some err)"
      by blast
    have "posts = posted @ map PostV2Member (a # sent) \<and> prefix (a # sent) (a # ms) \<and>
       (case r of
          None \<Rightarrow> a # sent = a # ms \<and> all_accepted m posted (map PostV2Member (a # sent))
        | Some err \<Rightarrow>
            a # sent \<noteq> [] \<and> all_accepted m posted (map PostV2Member (butlast (a # sent))) \<and>
            Keyring_Members_Post m (last (a # sent))
              (posted @ map PostV2Member (butlast (a # sent))) = Some err)"
      using s None by (auto split: option.splits)
    then show ?thesis by blast
  next
    case (Some err)
    with Cons.prems have "r = Some err" "posts = posted @ [PostV2Member a]" by auto
    with Some have "posts = posted @ map PostV2Member [a] \<and> prefix [a] (a # ms) \<and>
       (case r of
          None \<Rightarrow> [a] = a # ms \<and> all_accepted m posted (map PostV2Member [a])
        | Some err \<Rightarrow>
            [a] \<noteq> [] \<and> all_accepted m posted (map PostV2Member (butlast [a])) \<and>
            Keyring_Members_Post m (last [a]) (posted @ map PostV2Member (butlast [a])) =
              Some err)"
      by simp
    then show ?thesis by blast
  qed
qed

lemma post_members_posts:
  assumes "post_members m posted ms = (r, posts)"
  shows "prefix posts (posted @ map PostV2Member ms) \<and>
       (case r of
          None \<Rightarrow>
            posts = posted @ map PostV2Member ms \<and> all_accepted m posted (map PostV2Member ms)
        | Some err \<Rightarrow>
            (\<exists>sent. sent \<noteq> [] \<and> posts = posted @ map PostV2Member sent \<and>
               all_accepted m posted (map PostV2Member (butlast sent)) \<and>
               post_outcome m (posted @ map PostV2Member (butlast sent))
                 (PostV2Member (last sent)) = Some err))"
proof -
  from post_members_sent [OF assms] obtain sent where
    s: "posts = posted @ map PostV2Member sent" "prefix sent ms"
       "(case r of
          None \<Rightarrow> sent = ms \<and> all_accepted m posted (map PostV2Member sent)
        | Some err \<Rightarrow>
            sent \<noteq> [] \<and> all_accepted m posted (map PostV2Member (butlast sent)) \<and>
            Keyring_Members_Post m (last sent) (posted @ map PostV2Member (butlast sent)) =
              Some err)"
    by blast
  from s(1,2) have "prefix posts (posted @ map PostV2Member ms)"
    by (simp add: map_mono_prefix)
  with s show ?thesis by (auto split: option.splits)
qed

text \<open>
  C7. For every machine token: when the memberships cannot be derived, EncodeToken
  returns that error and uploads nothing. Otherwise its uploads are an initial part of:
  the V1 members as one batch (no batch request when there are none), then each V2 member
  by itself, in order. When it returns nil, all of them were uploaded and accepted. When
  it returns an error, that error is the registry's answer to the last upload made, every
  upload before it was accepted, and nothing was uploaded after it.
\<close>

theorem EncodeToken_posts:
  assumes "EncodeToken m token = (r, posts)"
  shows "(\<forall>err. createKeyringMemberships m (Token_OrgID (MachineToken_Body token))
                  (MachineToken_ID token) = Inl err \<longrightarrow>
            r = Some err \<and> posts = []) \<and>
         (\<forall>v1members v2members.
            createKeyringMemberships m (Token_OrgID (MachineToken_Body token))
              (MachineToken_ID token) = Inr (v1members, v2members) \<longrightarrow>
            prefix posts (expected_posts v1members v2members) \<and>
            (case r of
               None \<Rightarrow> posts = expected_posts v1members v2members \<and> all_accepted m [] posts
             | Some err \<Rightarrow>
                 posts \<noteq> [] \<and> all_accepted m [] (butlast posts) \<and>
                 post_outcome m (butlast posts) (last posts) = Some err))"
proof (intro conjI allI impI)
  fix err
  assume "createKeyringMemberships m (Token_OrgID (MachineToken_Body token))
            (MachineToken_ID token) = Inl err"
  with assms show "r = Some err" "posts = []" by (simp_all add: EncodeToken_def)
next
  fix v1 v2
  assume ok: "createKeyringMemberships m (Token_OrgID (MachineToken_Body token))
                (MachineToken_ID token) = Inr (v1, v2)"
  show "prefix posts (expected_posts v1 v2)"
  proof (cases "v1 = []")
    case True
    with assms ok have "post_members m [] v2 = (r, posts)" by (simp add: EncodeToken_def)
    from post_members_posts [OF this] True show ?thesis by (simp add: expected_posts_def)
  next
    case False
    show ?thesis
    proof (cases "KeyringMember_Post m v1 []")
      case None
      with assms ok False have "post_members m [PostV1Batch v1] v2 = (r, posts)"
        by (simp add: EncodeToken_def)
      from post_members_posts [OF this] False show ?thesis by (simp add: expected_posts_def)
    next
      case (Some e)
      with assms ok False have "posts = [PostV1Batch v1]" by (simp add: EncodeToken_def)
      with False show ?thesis by (simp add: expected_posts_def)
    qed
  qed
  show "case r of
          None \<Rightarrow> posts = expected_posts v1 v2 \<and> all_accepted m [] posts
        | Some err \<Rightarrow>
            posts \<noteq> [] \<and> all_accepted m [] (butlast posts) \<and>
            post_outcome m (butlast posts) (last posts) = Some err"
  proof (cases "v1 = []")
    case True
    with assms ok have "post_members m [] v2 = (r, posts)" by (simp add: EncodeToken_def)
    from post_members_posts [OF this] True show ?thesis
      by (auto simp: expected_posts_def map_butlast last_map split: option.splits)
  next
    case False
    show ?thesis
    proof (cases "KeyringMember_Post m v1 []")
      case None
      with assms ok False have "post_members m [PostV1Batch v1] v2 = (r, posts)"
        by (simp add: EncodeToken_def)
      from post_members_posts [OF this] False None show ?thesis
        by (auto simp: expected_posts_def map_butlast last_map split: option.splits)
    next
      case (Some e)
      with assms ok False have "posts = [PostV1Batch v1]" "r = Some e"
        by (simp_all add: EncodeToken_def)
      with False Some show ?thesis by simp
    qed
  qed
qed

theorem EncodeToken_posts_witness:
  "EncodeToken demo_logic demo_token =
     (Some (RegistryError 409 ''conflict''),
      [PostV1Batch [member_of ''k0''], PostV2Member (member_of ''k1''),
       PostV2Member (member_of ''k2'')]) \<and>
   prefix (snd (EncodeToken demo_logic demo_token))
     (expected_posts [member_of ''k0''] [member_of ''k1'', member_of ''k2'', member_of ''k3'']) \<and>
   post_outcome demo_logic (butlast (snd (EncodeToken demo_logic demo_token)))
     (last (snd (EncodeToken demo_logic demo_token))) = Some (RegistryError 409 ''conflict'')"
proof -
  let ?posts = "[PostV1Batch [member_of ''k0''], PostV2Member (member_of ''k1''),
                 PostV2Member (member_of ''k2'')]"
  have run: "EncodeToken demo_logic demo_token = (Some (RegistryError 409 ''conflict''), ?posts)"
    by (simp add: EncodeToken_def demo_logic_def demo_token_def member_of_def)
  have ms: "createKeyringMemberships demo_logic (Token_OrgID (MachineToken_Body demo_token))
              (MachineToken_ID demo_token) =
            Inr ([member_of ''k0''], [member_of ''k1'', member_of ''k2'', member_of ''k3''])"
    by (simp add: demo_logic_def)
  from EncodeToken_posts [OF run] ms
  have "prefix ?posts
          (expected_posts [member_of ''k0''] [member_of ''k1'', member_of ''k2'', member_of ''k3''])"
    and "post_outcome demo_logic (butlast ?posts) (last ?posts) = Some (RegistryError 409 ''conflict'')"
    by simp_all
  with run show ?thesis by simp
qed

section \<open>Properties of the environment file\<close>

text \<open>
  Where the disk is not full and the process may change the file's mode, a
  writeEnvironmentFile that returns nil has left exactly the two lines, with mode 0600.
\<close>

lemma writeEnvironmentFile_writes:
  assumes "writeEnvironmentFile ID_String Value_String token secret fs = (None, fs')"
    and "\<not> fs_full fs" and "\<not> fs_chmod_denied fs ''/etc/torus/token.environment''"
  shows "fs_files fs' ''/etc/torus/token.environment'' =
           Some (mode_0600,
                 ''TORUS_TOKEN_ID='' @ ID_String token @ newline @
                 ''TORUS_TOKEN_SECRET='' @ Value_String secret @ newline)"
  using assms
  by (auto simp: writeEnvironmentFile_def Let_def filepath_Join_def GlobalRoot_def
        EnvironmentFile_def os_Create_def os_Chmod_def bufio_Flush_def os_Mkdir_def
      split: sum.splits if_splits option.splits)

text \<open>
  C9 does not hold of the code. writeEnvironmentFile returns the error of \<open>os.Create\<close> but
  discards those of \<open>os.Chmod\<close>, \<open>WriteString\<close> and \<open>Flush\<close>. On a full disk the bootstrap
  of token \<open>tid\<close> with secret \<open>c2Vj\<close> returns nil and announces the file as saved, and the
  file /etc/torus/token.environment is empty. On a machine where the file is already
  there, writable by the process but owned by another user, the bootstrap returns nil,
  the two lines are written and the mode stays 0666.
\<close>

theorem bootstrap_success_without_file:
  "bootstrapCmd (\<lambda>i. i) (\<lambda>v. v) (Inr demo_response) full_disk =
     (None,
      full_disk\<lparr>fs_dirs := (fs_dirs full_disk)(''/etc/torus'' \<mapsto> 7 * 64),
                 fs_files := [''/etc/torus/token.environment'' \<mapsto> (6 * 64, [])]\<rparr>,
      [''Machine bootstrapped. Environment configuration saved in /etc/torus/token.environment'']) \<and>
   bootstrapCmd (\<lambda>i. i) (\<lambda>v. v) (Inr demo_response) foreign_file =
     (None,
      foreign_file\<lparr>fs_files :=
        [''/etc/torus/token.environment'' \<mapsto>
           (6 * 64 + 6 * 8 + 6,
            ''TORUS_TOKEN_ID=tid'' @ [CHR 0x0A] @ ''TORUS_TOKEN_SECRET=c2Vj'' @ [CHR 0x0A])]\<rparr>,
      [''Machine bootstrapped. Environment configuration saved in /etc/torus/token.environment''])"
  by (simp add: bootstrapCmd_def writeEnvironmentFile_def full_disk_def foreign_file_def
        bare_etc_def demo_response_def GlobalRoot_def EnvironmentFile_def filepath_Join_def
        filepath_Dir_def stat_IsNotExist_def os_Mkdir_def os_Create_def os_Chmod_def
        bufio_Flush_def mode_0600_def mode_0666_def mode_0700_def newline_def Let_def)

section \<open>Properties of the credentials client\<close>

lemma envelopes_loop_roundtrip:
  assumes "\<forall>b. json_Unmarshal_BaseCredential c (json_Marshal d (BodyV1 b)) = Inr b"
    and "\<forall>b. json_Unmarshal_CredentialV2 c (json_Marshal d (BodyV2 b)) = Inr b"
    and "list_all versioned es"
  shows "envelopes_loop c (map (to_resp d) es) results = Inr (results @ es)"
  using assms(3)
proof (induction es arbitrary: results)
  case Nil
  then show ?case by simp
next
  case (Cons e es)
  from Cons.prems have v: "versioned e" and vs: "list_all versioned es" by simp_all
  show ?case
  proof (cases "env_Body e")
    case (BodyV1 b)
    with v have "env_Version e = 1" by (simp add: versioned_def)
    moreover have "\<lparr>env_ID = env_ID e, env_Version = env_Version e, env_Body = BodyV1 b\<rparr> = e"
      using BodyV1 by simp
    ultimately show ?thesis using BodyV1 assms(1) Cons.IH [OF vs]
      by (simp add: to_resp_def)
  next
    case (BodyV2 b)
    with v have "env_Version e = 2" by (simp add: versioned_def)
    moreover have "\<lparr>env_ID = env_ID e, env_Version = env_Version e, env_Body = BodyV2 b\<rparr> = e"
      using BodyV2 by simp
    ultimately show ?thesis using BodyV2 assms(2) Cons.IH [OF vs]
      by (simp add: to_resp_def)
  qed
qed

lemma decrypt_body_kind:
  "decrypt_body d body = Inr body' \<Longrightarrow>
     (case body of BodyV1 b \<Rightarrow> (\<exists>b'. body' = BodyV1 b') | BodyV2 b \<Rightarrow> (\<exists>b'. body' = BodyV2 b'))"
  by (cases body) (auto split: sum.splits)

lemma decrypt_all_versioned:
  "decrypt_all d es = Inr ds \<Longrightarrow> list_all versioned es \<Longrightarrow> list_all versioned ds"
proof (induction es arbitrary: ds)
  case Nil
  then show ?case by simp
next
  case (Cons e es)
  from Cons.prems(1) obtain body rest where
    b: "decrypt_body d (env_Body e) = Inr body" and r: "decrypt_all d es = Inr rest"
    and ds: "ds = e\<lparr>env_Body := body\<rparr> # rest"
    by (auto split: sum.splits)
  from Cons.prems(2) have v: "versioned e" and vs: "list_all versioned es" by simp_all
  from decrypt_body_kind [OF b] v have "versioned (e\<lparr>env_Body := body\<rparr>)"
    by (cases "env_Body e") (auto simp: versioned_def)
  with Cons.IH [OF r vs] ds show ?case by simp
qed

lemma decrypt_all_carry:
  "decrypt_all d es = Inr ds \<Longrightarrow> carry_decrypted d es ds"
proof (induction es arbitrary: ds)
  case Nil
  then show ?case by (simp add: carry_decrypted_def)
next
  case (Cons e es)
  from Cons.prems(1) obtain body rest where
    b: "decrypt_body d (env_Body e) = Inr body" and r: "decrypt_all d es = Inr rest"
    and ds: "ds = e\<lparr>env_Body := body\<rparr> # rest"
    by (auto split: sum.splits)
  from Cons.IH [OF r] b ds show ?case by (simp add: carry_decrypted_def)
qed

lemma fold_Add_values:
  "ts \<noteq> [] \<Longrightarrow>
     fold (\<lambda>t v. values_Add v ''team_id'' (f t)) ts v =
       v(''team_id'' \<mapsto> (case v ''team_id'' of None \<Rightarrow> [] | Some xs \<Rightarrow> xs) @ map f ts)"
proof (induction ts arbitrary: v)
  case Nil
  then show ?case by simp
next
  case (Cons t ts)
  show ?case
  proof (cases "ts = []")
    case True
    then show ?thesis by (simp add: values_Add_def)
  next
    case False
    from Cons.IH [OF False, of "values_Add v ''team_id'' (f t)"]
    show ?thesis by (auto simp: values_Add_def fun_eq_iff)
  qed
qed

text \<open>
  C8. Against the daemon as the spec describes it, with a JSON codec that reads back what
  it wrote and a registry whose envelopes have the version of their body: every get by
  path and every search by path expression returns what the daemon decrypted from the
  registry's list for its query, so the returned envelopes carry decrypted bodies, each
  obtained by decrypting the credential with its keyring's master encryption key; the
  call fails exactly when that decryption fails. The query of a get is the path; the
  query of a search is the path expression, \<open>skip-decryption=true\<close> and the team ids.
\<close>

theorem Get_Search_decrypted:
  assumes daemon: "DaemonRoundTrip c = daemon_credentials d"
    and v1: "\<forall>b. json_Unmarshal_BaseCredential c (json_Marshal d (BodyV1 b)) = Inr b"
    and v2: "\<forall>b. json_Unmarshal_CredentialV2 c (json_Marshal d (BodyV2 b)) = Inr b"
    and vs: "\<forall>v. list_all versioned (registry_list d v)"
  shows "Get c path = decrypt_all d (registry_list d [''path'' \<mapsto> [path]]) \<and>
         (\<forall>envs. Get c path = Inr envs \<longrightarrow>
            carry_decrypted d (registry_list d [''path'' \<mapsto> [path]]) envs) \<and>
         (\<exists>v. v = (case teamIDs of
                     None \<Rightarrow> [''pathexp'' \<mapsto> [pathexp], ''skip-decryption'' \<mapsto> [''true'']]
                   | Some ts \<Rightarrow>
                       if ts = []
                       then [''pathexp'' \<mapsto> [pathexp], ''skip-decryption'' \<mapsto> [''true'']]
                       else [''pathexp'' \<mapsto> [pathexp], ''skip-decryption'' \<mapsto> [''true''],
                             ''team_id'' \<mapsto> map (team_ID_String c) ts]) \<and>
              Search c pathexp teamIDs = decrypt_all d (registry_list d v) \<and>
              (\<forall>envs. Search c pathexp teamIDs = Inr envs \<longrightarrow>
                 carry_decrypted d (registry_list d v) envs))"
proof -
  have worker: "listWorker c v = decrypt_all d (registry_list d v)" for v
  proof (cases "decrypt_all d (registry_list d v)")
    case (Inl err)
    then show ?thesis by (simp add: listWorker_def daemon daemon_credentials_def)
  next
    case (Inr ds)
    from decrypt_all_versioned [OF Inr] vs have "list_all versioned ds" by blast
    from envelopes_loop_roundtrip [OF v1 v2 this, of "[]"] Inr show ?thesis
      by (simp add: listWorker_def daemon daemon_credentials_def createEnvelopesFromResp_def)
  qed
  let ?base = "[''pathexp'' \<mapsto> [pathexp], ''skip-decryption'' \<mapsto> [''true'']]"
  let ?v = "case teamIDs of
              None \<Rightarrow> ?base
            | Some ts \<Rightarrow>
                if ts = [] then ?base
                else [''pathexp'' \<mapsto> [pathexp], ''skip-decryption'' \<mapsto> [''true''],
                      ''team_id'' \<mapsto> map (team_ID_String c) ts]"
  have g: "Get c path = decrypt_all d (registry_list d [''path'' \<mapsto> [path]])"
    by (simp add: Get_def worker values_Set_def)
  have s: "Search c pathexp teamIDs = decrypt_all d (registry_list d ?v)"
    by (simp add: Search_def Let_def worker values_Set_def fold_Add_values split: option.splits)
  from g s decrypt_all_carry [of d] show ?thesis by simp
qed

theorem Get_Search_decrypted_witness:
  "Get demo_api ''/o/p/dev/svc'' = Inr demo_plain \<and>
   Search demo_api ''/o/p/dev/svc/**'' (Some [''t1'', ''t2'']) = Inr demo_plain \<and>
   carry_decrypted demo_daemon demo_listed demo_plain"
proof -
  have daemon: "DaemonRoundTrip demo_api = daemon_credentials demo_daemon"
    by (simp add: demo_api_def)
  have v1: "\<forall>b. json_Unmarshal_BaseCredential demo_api (json_Marshal demo_daemon (BodyV1 b)) = Inr b"
    and v2: "\<forall>b. json_Unmarshal_CredentialV2 demo_api (json_Marshal demo_daemon (BodyV2 b)) = Inr b"
    by (simp_all add: demo_api_def demo_daemon_def)
  have vs: "\<forall>v. list_all versioned (registry_list demo_daemon v)"
    by (simp add: demo_daemon_def demo_listed_def versioned_def)
  have l: "registry_list demo_daemon v = demo_listed" for v
    by (simp add: demo_daemon_def)
  have d: "decrypt_all demo_daemon demo_listed = Inr demo_plain"
    by (simp add: demo_daemon_def demo_listed_def demo_plain_def)
  note inst = Get_Search_decrypted [OF daemon v1 v2 vs, where path = "''/o/p/dev/svc''"
      and pathexp = "''/o/p/dev/svc/**''" and teamIDs = "Some [''t1'', ''t2'']"]
  from inst [THEN conjunct1] have g: "Get demo_api ''/o/p/dev/svc'' = Inr demo_plain"
    by (simp add: l d)
  from inst [THEN conjunct2, THEN conjunct2] obtain v where
    "v = (case Some [''t1'', ''t2''] of
            None \<Rightarrow> [''pathexp'' \<mapsto> [''/o/p/dev/svc/**''], ''skip-decryption'' \<mapsto> [''true'']]
          | Some ts \<Rightarrow>
              if ts = []
              then [''pathexp'' \<mapsto> [''/o/p/dev/svc/**''], ''skip-decryption'' \<mapsto> [''true'']]
              else [''pathexp'' \<mapsto> [''/o/p/dev/svc/**''], ''skip-decryption'' \<mapsto> [''true''],
                    ''team_id'' \<mapsto> map (team_ID_String demo_api) ts]) \<and>
     Search demo_api ''/o/p/dev/svc/**'' (Some [''t1'', ''t2'']) =
       decrypt_all demo_daemon (registry_list demo_daemon v) \<and>
     (\<forall>envs. Search demo_api ''/o/p/dev/svc/**'' (Some [''t1'', ''t2'']) = Inr envs \<longrightarrow>
        carry_decrypted demo_daemon (registry_list demo_daemon v) envs)" ..
  note found = this
  from found [THEN conjunct2, THEN conjunct1]
  have s: "Search demo_api ''/o/p/dev/svc/**'' (Some [''t1'', ''t2'']) = Inr demo_plain"
    by (simp add: l d)
  from found [THEN conjunct2, THEN conjunct2, rule_format, OF s]
  have "carry_decrypted demo_daemon demo_listed demo_plain" by (simp add: l)
  with g s show ?thesis by simp
qed

end
